theory Spec2Isabelle
  imports Main "HOL-Library.Word"
begin

unbundle bit_operations_syntax

section \<open>Byte-order utility (src/udp/net.h)\<close>

text \<open>
  A \<open>char\<close> is one byte. A scalar of type \<open>T\<close> is seen by \<open>to_network_order\<close>
  through \<open>char* cp\<close>, that is as its object representation: \<open>sizeof(T)\<close> bytes in
  memory order. The host's byte order decides how a scalar is laid out in memory.
\<close>

type_synonym byte = "8 word"

datatype endian = BigEndian | LittleEndian

text \<open>The memory image of a 32-bit \<open>int\<close> and of a 16-bit scalar on a host.\<close>

fun store32 :: "endian \<Rightarrow> 32 word \<Rightarrow> byte list" where
  "store32 LittleEndian x =
     [ucast x, ucast (drop_bit 8 x), ucast (drop_bit 16 x), ucast (drop_bit 24 x)]"
| "store32 BigEndian x =
     [ucast (drop_bit 24 x), ucast (drop_bit 16 x), ucast (drop_bit 8 x), ucast x]"

fun store16 :: "endian \<Rightarrow> 16 word \<Rightarrow> byte list" where
  "store16 LittleEndian x = [ucast x, ucast (drop_bit 8 x)]"
| "store16 BigEndian x = [ucast (drop_bit 8 x), ucast x]"

text \<open>Reading a 16-bit scalar back from its two bytes; any other length is no such scalar.\<close>

fun load16 :: "endian \<Rightarrow> byte list \<Rightarrow> 16 word option" where
  "load16 LittleEndian [b0, b1] = Some (ucast b0 OR push_bit 8 (ucast b1))"
| "load16 BigEndian [b0, b1] = Some (ucast b1 OR push_bit 8 (ucast b0))"
| "load16 _ _ = None"

text \<open>
  \<^verbatim>\<open>const int number = 0x1; const char *ptr = reinterpret_cast<const char*>(&number);
  return !(ptr[0]);\<close>
\<close>

definition is_big_endian :: "endian \<Rightarrow> bool" where
  "is_big_endian p = (let number = store32 p 1 in hd number = 0)"

text \<open>
  The lambda \<^verbatim>\<open>[] (char a, char b) { a ^= b; b ^= a; a ^= b; }\<close> takes both
  parameters by value and returns nothing. \<open>swap\<close> gives the final values of its two
  local variables; they are lost when the lambda returns.
\<close>

definition swap :: "byte \<Rightarrow> byte \<Rightarrow> byte \<times> byte" where
  "swap a0 b0 =
     (let a1 = a0 XOR b0;
          b1 = b0 XOR a1;
          a2 = a1 XOR b1
      in (a2, b1))"

text \<open>
  \<^verbatim>\<open>for (int i = 0; i < N / 2; i++) swap(cp[i], cp[N-i-1]);\<close>
  Each iteration reads \<open>cp[i]\<close> and \<open>cp[N-i-1]\<close>, passes copies to the lambda and
  drops what the lambda computed: the statement stores nothing through \<open>cp\<close>.
\<close>

function swap_loop :: "byte list \<Rightarrow> nat \<Rightarrow> nat \<Rightarrow> byte list" where
  "swap_loop cp N i =
     (if i < N div 2
      then (let locals = swap (cp ! i) (cp ! (N - i - 1)) in swap_loop cp N (i + 1))
      else cp)"
  by pat_completeness auto
termination
  by (relation "measure (\<lambda>(cp, N, i). N div 2 - i)") auto

declare swap_loop.simps [simp del]

text \<open>\<open>to_network_order\<close> on the object representation \<open>data\<close> of a scalar, \<open>N = sizeof(T)\<close>.\<close>

definition to_network_order :: "endian \<Rightarrow> byte list \<Rightarrow> byte list" where
  "to_network_order p data =
     (if \<not> is_big_endian p then swap_loop data (length data) 0 else data)"

section \<open>UDP connection (src/udp/UdpConnection.h, src/udp/UdpConnection.cpp)\<close>

subsection \<open>Socket addresses and the C library\<close>

text \<open>
  \<open>struct sockaddr_in\<close>: the family and the port as the 16-bit values the host reads, the
  4 bytes of \<open>sin_addr\<close> and the 8 bytes of \<open>sin_zero\<close> as they lie in memory.
\<close>

record sockaddr_in =
  sin_family :: "16 word"
  sin_port :: "16 word"
  sin_addr :: "byte list"
  sin_zero :: "byte list"

definition AF_INET :: "16 word" where
  "AF_INET = 2"

definition INADDR_ANY :: "32 word" where
  "INADDR_ANY = 0"

text \<open>\<open>htons\<close> and \<open>htonl\<close> of the C library: the identity on a big-endian host, the
  reversal of the bytes on a little-endian one.\<close>

definition htons :: "endian \<Rightarrow> 16 word \<Rightarrow> 16 word" where
  "htons p x = (if p = BigEndian then x else push_bit 8 x OR drop_bit 8 x)"

definition htonl :: "endian \<Rightarrow> 32 word \<Rightarrow> 32 word" where
  "htonl p x =
     (if p = BigEndian then x
      else push_bit 24 x OR (push_bit 8 x AND 0xFF0000)
           OR (drop_bit 8 x AND 0xFF00) OR drop_bit 24 x)"

text \<open>\<open>std::memset(&addr, 0, sizeof(addr))\<close>.\<close>

definition memset_zero :: sockaddr_in where
  "memset_zero =
     \<lparr>sin_family = 0, sin_port = 0, sin_addr = replicate 4 0, sin_zero = replicate 8 0\<rparr>"

text \<open>
  \<open>std::memcpy(&addr.sin_addr, he->h_addr_list[0], he->h_length)\<close>: the bytes of the
  resolved address are written from the start of \<open>sin_addr\<close> on; more than 4 of them run
  on into \<open>sin_zero\<close>. What a copy longer than these 12 bytes does to the memory behind the
  struct is outside the model.
\<close>

definition memcpy_sin_addr :: "sockaddr_in \<Rightarrow> byte list \<Rightarrow> sockaddr_in" where
  "memcpy_sin_addr addr src =
     (let region = sin_addr addr @ sin_zero addr;
          written = take (length region) (src @ drop (length src) region)
      in addr\<lparr>sin_addr := take 4 written, sin_zero := drop 4 written\<rparr>)"

text \<open>\<open>name.c_str()\<close> as a C function reads it: the characters before the first NUL.\<close>

definition c_str :: "string \<Rightarrow> string" where
  "c_str name = takeWhile (\<lambda>ch. ch \<noteq> CHR 0x00) name"

subsection \<open>The operating system\<close>

text \<open>
  What the operating system answers to each primitive the connection uses. \<open>::socket\<close>,
  \<open>::bind\<close>, \<open>::connect\<close> and \<open>::write\<close> answer with their return value;
  \<open>::gethostbyname\<close> with \<open>None\<close> for a null pointer and otherwise with the \<open>h_length\<close>
  bytes of \<open>h_addr_list[0]\<close>; \<open>::recvfrom\<close> with its return value, the buffer as it
  leaves it and the address of the sender. The readiness questions take the descriptor
  and the timeout in milliseconds. Descriptors, sizes, timeouts and return values are C
  \<open>int\<close>s (the \<open>ssize_t\<close> of a read or write is \<open>-1\<close> or a count no larger than a
  datagram); the code does no arithmetic on them, and they are integers here.
\<close>

record os_env =
  os_socket :: int
  os_gethostbyname :: "string \<Rightarrow> byte list option"
  os_bind :: "int \<Rightarrow> sockaddr_in \<Rightarrow> int"
  os_connect :: "int \<Rightarrow> sockaddr_in \<Rightarrow> int"
  os_can_read :: "int \<Rightarrow> int \<Rightarrow> bool"
  os_can_write :: "int \<Rightarrow> int \<Rightarrow> bool"
  os_recvfrom :: "int \<Rightarrow> byte list \<Rightarrow> int \<Rightarrow> int \<times> byte list \<times> sockaddr_in"
  os_write :: "int \<Rightarrow> byte list \<Rightarrow> int \<Rightarrow> int"

text \<open>The primitives an operation has called, in the order of the calls.\<close>

datatype syscall =
    Sys_gethostbyname string
  | Sys_bind int sockaddr_in
  | Sys_connect int sockaddr_in
  | Sys_can_read int int
  | Sys_can_write int int
  | Sys_recvfrom int int
  | Sys_write int "byte list" int

subsection \<open>The descriptor wrapper\<close>

text \<open>
  Modelled from the spec: the class \<open>Fd\<close> (Fd.h) is not among the sources. Its conversion
  to \<open>bool\<close>, which initialises \<open>_is_init\<close>, tells whether the descriptor was acquired
  (the spec's state Uninitialized is "descriptor acquisition failed"; \<open>::socket\<close> answers
  a negative value then). Its \<open>can_read\<close> and \<open>can_write\<close> are the spec's "poll/select
  for read/write readiness with millisecond timeout": one question to the operating system.
\<close>

definition Fd_valid :: "int \<Rightarrow> bool" where
  "Fd_valid d = (0 \<le> d)"

definition Fd_can_read :: "os_env \<Rightarrow> int \<Rightarrow> int \<Rightarrow> bool" where
  "Fd_can_read os d timeout = os_can_read os d timeout"

definition Fd_can_write :: "os_env \<Rightarrow> int \<Rightarrow> int \<Rightarrow> bool" where
  "Fd_can_write os d timeout = os_can_write os d timeout"

subsection \<open>The connection\<close>

text \<open>
  The members the member functions read or write: \<open>_fd\<close>, \<open>_is_connected\<close>,
  \<open>_is_init\<close> and \<open>_remote_addr\<close>. (\<open>_data\<close>, \<open>_raw\<close> and \<open>_size\<close> are used by none
  of them.)
\<close>

record UdpConnection =
  fd :: int
  is_connected :: bool
  is_init :: bool
  remote_addr :: sockaddr_in

text \<open>
  The constructor: \<open>_fd(::socket(AF_INET, SOCK_DGRAM, 0)), _is_connected(false),
  _is_init(_fd)\<close>. It gives \<open>_remote_addr\<close> no value: \<open>junk\<close> is whatever the memory held.
\<close>

definition UdpConnection_ctor :: "os_env \<Rightarrow> sockaddr_in \<Rightarrow> UdpConnection" where
  "UdpConnection_ctor os junk =
     \<lparr>fd = os_socket os, is_connected = False, is_init = Fd_valid (os_socket os),
      remote_addr = junk\<rparr>"

text \<open>
  Modelled from the spec: the macros \<open>AbortIfNot(cond, ret, ...)\<close> and \<open>AbortIf(cond, ret)\<close>
  (abort.h) are not among the sources. They are the spec's "guard at the entry" that fails
  the operation: the enclosing function returns \<open>ret\<close> at once when \<open>cond\<close> is false
  (\<open>AbortIfNot\<close>) or true (\<open>AbortIf\<close>), and goes on with the statements after the macro
  otherwise. The third argument here is what those statements return. (The message the
  macro may log is not part of the model.)
\<close>

definition AbortIfNot :: "bool \<Rightarrow> 'a \<Rightarrow> 'a \<Rightarrow> 'a" where
  "AbortIfNot cond ret rest = (if cond then rest else ret)"

definition AbortIf :: "bool \<Rightarrow> 'a \<Rightarrow> 'a \<Rightarrow> 'a" where
  "AbortIf cond ret rest = (if cond then ret else rest)"

text \<open>
  \<open>_init_sockaddr(port, name, addr)\<close>. The struct is overwritten from its first byte on,
  so the result does not depend on what \<open>addr\<close> held. The result is the return value, the
  struct as the call leaves it, and the primitives called. \<open>AbortIfNot(he, false)\<close> on the
  pointer \<open>he\<close> is the case \<open>None\<close>.
\<close>

definition init_sockaddr ::
  "endian \<Rightarrow> os_env \<Rightarrow> 16 word \<Rightarrow> string \<Rightarrow> bool \<times> sockaddr_in \<times> syscall list" where
  "init_sockaddr p os port name =
     (let addr0 = memset_zero;
          addr1 = addr0\<lparr>sin_family := AF_INET\<rparr>;
          addr2 = addr1\<lparr>sin_port := htons p port\<rparr>
      in if name = []
         then (True, addr2\<lparr>sin_addr := store32 p (htonl p INADDR_ANY)\<rparr>, [])
         else (case os_gethostbyname os (c_str name) of
                 None \<Rightarrow> (False, addr2, [Sys_gethostbyname (c_str name)])
               | Some h_addr \<Rightarrow>
                   (True, memcpy_sin_addr addr2 h_addr, [Sys_gethostbyname (c_str name)])))"

text \<open>\<open>bind(port, name)\<close>: the return value, the connection afterwards, the primitives called.\<close>

definition bind ::
  "endian \<Rightarrow> os_env \<Rightarrow> UdpConnection \<Rightarrow> 16 word \<Rightarrow> string
   \<Rightarrow> bool \<times> UdpConnection \<times> syscall list" where
  "bind p os c port name =
     AbortIfNot (is_init c) (False, c, [])
       (case init_sockaddr p os port name of
          (ok, addr, calls) \<Rightarrow>
            AbortIfNot ok (False, c, calls)
              (AbortIf (os_bind os (fd c) addr \<noteq> 0)
                 (False, c, calls @ [Sys_bind (fd c) addr])
                 (True, c, calls @ [Sys_bind (fd c) addr])))"

text \<open>\<open>connect(port, host)\<close>: \<open>_init_sockaddr\<close> writes straight into \<open>_remote_addr\<close>.\<close>

definition connect ::
  "endian \<Rightarrow> os_env \<Rightarrow> UdpConnection \<Rightarrow> 16 word \<Rightarrow> string
   \<Rightarrow> bool \<times> UdpConnection \<times> syscall list" where
  "connect p os c port host =
     AbortIfNot (is_init c) (False, c, [])
       (case init_sockaddr p os port host of
          (ok, addr, calls) \<Rightarrow>
            (let c1 = c\<lparr>remote_addr := addr\<rparr>
             in AbortIfNot ok (False, c1, calls)
                  (AbortIf (os_connect os (fd c1) (remote_addr c1) \<noteq> 0)
                     (False, c1, calls @ [Sys_connect (fd c1) (remote_addr c1)])
                     (True, c1\<lparr>is_connected := True\<rparr>,
                      calls @ [Sys_connect (fd c1) (remote_addr c1)]))))"

text \<open>
  \<open>recv(buf, size, timeout) const\<close>: the return value, the caller's buffer afterwards, the
  primitives called. The sender's address \<open>s_addr\<close> that \<open>::recvfrom\<close> fills in is a local
  variable the function never reads.
\<close>

definition recv ::
  "os_env \<Rightarrow> UdpConnection \<Rightarrow> byte list \<Rightarrow> int \<Rightarrow> int \<Rightarrow> int \<times> byte list \<times> syscall list" where
  "recv os c buf sz timeout =
     AbortIfNot (is_init c) (- 1, buf, [])
       (if \<not> Fd_can_read os (fd c) timeout
        then (0, buf, [Sys_can_read (fd c) timeout])
        else (case os_recvfrom os (fd c) buf sz of
                (nbytes, buf', s_addr) \<Rightarrow>
                  AbortIf (nbytes < 0)
                    (- 1, buf', [Sys_can_read (fd c) timeout, Sys_recvfrom (fd c) sz])
                    (nbytes, buf', [Sys_can_read (fd c) timeout, Sys_recvfrom (fd c) sz])))"

text \<open>\<open>send(buf, size, timeout) const\<close>: the return value and the primitives called.\<close>

definition send ::
  "os_env \<Rightarrow> UdpConnection \<Rightarrow> byte list \<Rightarrow> int \<Rightarrow> int \<Rightarrow> int \<times> syscall list" where
  "send os c buf sz timeout =
     AbortIfNot (is_init c) (- 1, [])
       (AbortIfNot (is_connected c) (- 1, [])
          (if \<not> Fd_can_write os (fd c) timeout
           then (0, [Sys_can_write (fd c) timeout])
           else (let nbytes = os_write os (fd c) buf sz
                 in AbortIf (nbytes < 0)
                      (- 1, [Sys_can_write (fd c) timeout, Sys_write (fd c) buf sz])
                      (nbytes, [Sys_can_write (fd c) timeout, Sys_write (fd c) buf sz]))))"

subsection \<open>The declared recv with the sender flag\<close>



subsection \<open>Sequences of operations\<close>

text \<open>The connection state of the spec, derived from the two flags.\<close>

datatype conn_state = Uninitialized | Unconnected | Connected

definition state_of :: "UdpConnection \<Rightarrow> conn_state" where
  "state_of c =
     (if \<not> is_init c then Uninitialized
      else if is_connected c then Connected else Unconnected)"

text \<open>A call of a public member function with its arguments.\<close>

datatype op =
    Bind "16 word" string
  | Connect "16 word" string
  | Recv "byte list" int int
  | Send "byte list" int int

text \<open>The connection after one call; \<open>recv\<close> and \<open>send\<close> are \<open>const\<close>.\<close>

fun step :: "endian \<Rightarrow> os_env \<Rightarrow> op \<Rightarrow> UdpConnection \<Rightarrow> UdpConnection" where
  "step p os (Bind port name) c = fst (snd (bind p os c port name))"
| "step p os (Connect port host) c = fst (snd (connect p os c port host))"
| "step p os (Recv buf sz timeout) c = c"
| "step p os (Send buf sz timeout) c = c"

text \<open>Whether the call is a \<open>connect\<close> that returns true.\<close>

fun connect_ok :: "endian \<Rightarrow> os_env \<Rightarrow> op \<Rightarrow> UdpConnection \<Rightarrow> bool" where
  "connect_ok p os (Connect port host) c = fst (connect p os c port host)"
| "connect_ok p os _ c = False"

fun is_connect :: "op \<Rightarrow> bool" where
  "is_connect (Connect port host) = True"
| "is_connect _ = False"

text \<open>
  A sequence of calls, each with the answers the operating system gives during it; the
  connection after the sequence, the number of successful \<open>connect\<close> calls in it, and the
  number of calls that take the connection from Unconnected to Connected, or from Connected
  to another state.
\<close>

fun run :: "endian \<Rightarrow> (os_env \<times> op) list \<Rightarrow> UdpConnection \<Rightarrow> UdpConnection" where
  "run p [] c = c"
| "run p ((os, x) # xs) c = run p xs (step p os x c)"

fun successful_connects :: "endian \<Rightarrow> (os_env \<times> op) list \<Rightarrow> UdpConnection \<Rightarrow> nat" where
  "successful_connects p [] c = 0"
| "successful_connects p ((os, x) # xs) c =
     (if connect_ok p os x c then 1 else 0) + successful_connects p xs (step p os x c)"

fun transitions_to_connected :: "endian \<Rightarrow> (os_env \<times> op) list \<Rightarrow> UdpConnection \<Rightarrow> nat" where
  "transitions_to_connected p [] c = 0"
| "transitions_to_connected p ((os, x) # xs) c =
     (if state_of c = Unconnected \<and> state_of (step p os x c) = Connected then 1 else 0)
     + transitions_to_connected p xs (step p os x c)"

fun transitions_from_connected :: "endian \<Rightarrow> (os_env \<times> op) list \<Rightarrow> UdpConnection \<Rightarrow> nat" where
  "transitions_from_connected p [] c = 0"
| "transitions_from_connected p ((os, x) # xs) c =
     (if state_of c = Connected \<and> state_of (step p os x c) \<noteq> Connected then 1 else 0)
     + transitions_from_connected p xs (step p os x c)"

text \<open>A sequence with no \<open>connect\<close> call in it.\<close>

fun no_connect :: "(os_env \<times> op) list \<Rightarrow> bool" where
  "no_connect [] = True"
| "no_connect ((os, x) # xs) = (\<not> is_connect x \<and> no_connect xs)"

subsection \<open>A sample environment\<close>

text \<open>
  An operating system that gives descriptor 3, resolves the two host names \<open>peer-a\<close> and
  \<open>peer-b\<close>, lets every bind, connect and write succeed, and always has a 3-byte datagram
  from \<open>peer-b\<close>, port 99, ready to read; variants of it where the datagram is from
  \<open>peer-a\<close>, port 80, where nothing is readable and where no descriptor can be had; and connections and call sequences built on them.
\<close>

definition peer_b_99 :: sockaddr_in where
  "peer_b_99 =
     \<lparr>sin_family = AF_INET, sin_port = htons LittleEndian 99,
      sin_addr = [10, 0, 0, 2], sin_zero = replicate 8 0\<rparr>"

definition os_demo :: os_env where
  "os_demo =
     \<lparr>os_socket = 3,
      os_gethostbyname =
        (\<lambda>name. if name = ''peer-a'' then Some [10, 0, 0, 1]
                else if name = ''peer-b'' then Some [10, 0, 0, 2] else None),
      os_bind = (\<lambda>d addr. 0),
      os_connect = (\<lambda>d addr. 0),
      os_can_read = (\<lambda>d timeout. True),
      os_can_write = (\<lambda>d timeout. True),
      os_recvfrom = (\<lambda>d buf sz. (3, [0x41, 0x42, 0x43] @ drop 3 buf, peer_b_99)),
      os_write = (\<lambda>d buf sz. sz)\<rparr>"

definition peer_a_80 :: sockaddr_in where
  "peer_a_80 =
     \<lparr>sin_family = AF_INET, sin_port = htons LittleEndian 80,
      sin_addr = [10, 0, 0, 1], sin_zero = replicate 8 0\<rparr>"

definition os_from_peer_a :: os_env where
  "os_from_peer_a =
     os_demo\<lparr>os_recvfrom := (\<lambda>d buf sz. (3, [0x41, 0x42, 0x43] @ drop 3 buf, peer_a_80))\<rparr>"

definition os_idle :: os_env where
  "os_idle = os_demo\<lparr>os_can_read := (\<lambda>d timeout. False)\<rparr>"

definition os_no_socket :: os_env where
  "os_no_socket = os_demo\<lparr>os_socket := - 1\<rparr>"

definition conn_demo :: UdpConnection where
  "conn_demo = UdpConnection_ctor os_demo memset_zero"

definition conn_peer_a :: UdpConnection where
  "conn_peer_a = fst (snd (connect LittleEndian os_demo conn_demo 80 ''peer-a''))"

definition conn_bound_peer_a :: UdpConnection where
  "conn_bound_peer_a =
     run LittleEndian [(os_demo, Bind 5000 []), (os_demo, Connect 80 ''peer-a'')] conn_demo"

definition ops_demo :: "(os_env \<times> op) list" where
  "ops_demo =
     [(os_demo, Bind 5000 []), (os_demo, Connect 80 ''peer-a''),
      (os_demo, Send [0x41, 0x42, 0x43] 3 1000), (os_demo, Connect 81 ''peer-b'')]"

definition ops_no_connect :: "(os_env \<times> op) list" where
  "ops_no_connect =
     [(os_demo, Bind 5000 []), (os_idle, Recv [0, 0, 0] 3 0), (os_demo, Connect 80 ''nobody''),
      (os_demo, Send [0x41, 0x42, 0x43] 3 1000)]"

definition ops_io :: "(os_env \<times> op) list" where
  "ops_io =
     [(os_demo, Bind 5000 []), (os_demo, Recv [0, 0, 0] 3 1000),
      (os_demo, Send [0x41, 0x42, 0x43] 3 1000)]"

section \<open>Properties of the byte-order utility\<close>

lemma is_big_endian_iff: "is_big_endian p = (p = BigEndian)"
  by (cases p) (simp_all add: is_big_endian_def)

lemma swap_loop_unchanged: "swap_loop cp N i = cp"
proof (induction cp N i rule: swap_loop.induct)
  case (1 cp N i)
  show ?case
  proof (cases "i < N div 2")
    case True
    then have "swap_loop cp N i = swap_loop cp N (i + 1)"
      by (subst swap_loop.simps) (simp add: Let_def)
    with True "1.IH" show ?thesis by simp
  next
    case False
    then show ?thesis by (subst swap_loop.simps) simp
  qed
qed

text \<open>
  C2. On every host and for a scalar of every size, \<open>to_network_order\<close> leaves the bytes of
  the value as they were: the lambda swaps copies only, so the loop writes nothing.
\<close>

theorem to_network_order_unchanged: "to_network_order p data = data"
  by (simp add: to_network_order_def swap_loop_unchanged)

text \<open>
  C9. Applying \<open>to_network_order\<close> twice gives the original value back, for a scalar of
  every size and on every host.
\<close>

theorem to_network_order_involution:
  "to_network_order p (to_network_order p data) = data"
  unfolding to_network_order_def by (simp add: swap_loop_unchanged)

text \<open>
  C1. On a big-endian host, where \<open>is_big_endian\<close> is true, the 2-byte value \<open>0x0102\<close>
  comes out of \<open>to_network_order\<close> as \<open>0x0102\<close>. On a little-endian host, where
  \<open>is_big_endian\<close> is false, it comes out as \<open>0x0102\<close> too: its two bytes are not
  reversed, and the value \<open>0x0201\<close> that conversion to network byte order calls for is
  not produced.
\<close>

theorem to_network_order_0x0102_little_endian:
  "is_big_endian BigEndian
   \<and> load16 BigEndian (to_network_order BigEndian (store16 BigEndian 0x0102)) = Some 0x0102
   \<and> \<not> is_big_endian LittleEndian
   \<and> to_network_order LittleEndian (store16 LittleEndian 0x0102) = [0x02, 0x01]
   \<and> load16 LittleEndian (to_network_order LittleEndian (store16 LittleEndian 0x0102))
       = Some 0x0102
   \<and> load16 LittleEndian (to_network_order LittleEndian (store16 LittleEndian 0x0102))
       \<noteq> Some 0x0201"
  by (simp add: is_big_endian_iff to_network_order_def swap_loop_unchanged)

section \<open>Properties of the connection\<close>

lemmas abort_defs = AbortIfNot_def AbortIf_def

lemma init_sockaddr_ok:
  "fst (init_sockaddr p os port name) = (name = [] \<or> os_gethostbyname os (c_str name) \<noteq> None)"
  by (simp add: abort_defs init_sockaddr_def Let_def split: option.splits)

lemma init_sockaddr_wildcard:
  "init_sockaddr p os port [] =
     (True, \<lparr>sin_family = AF_INET, sin_port = htons p port, sin_addr = [0, 0, 0, 0],
             sin_zero = replicate 8 0\<rparr>, [])"
  by (cases p) (simp_all add: abort_defs init_sockaddr_def memset_zero_def htonl_def INADDR_ANY_def)

lemma bind_conn_unchanged: "fst (snd (bind p os c port name)) = c"
  by (simp add: abort_defs bind_def split: prod.splits)

lemma connect_is_init: "is_init (fst (snd (connect p os c port host))) = is_init c"
  by (simp add: abort_defs connect_def Let_def split: prod.splits)

lemma connect_is_connected:
  "is_connected (fst (snd (connect p os c port host)))
     = (is_connected c \<or> fst (connect p os c port host))"
  by (simp add: abort_defs connect_def Let_def split: prod.splits)

lemma connect_ok_is_init: "fst (connect p os c port host) \<Longrightarrow> is_init c"
  by (simp add: abort_defs connect_def Let_def split: prod.splits if_splits)

lemma step_is_init: "is_init (step p os x c) = is_init c"
  by (cases x) (simp_all add: bind_conn_unchanged connect_is_init)

lemma step_is_connected: "is_connected (step p os x c) = (is_connected c \<or> connect_ok p os x c)"
  by (cases x) (simp_all add: bind_conn_unchanged connect_is_connected)

lemma connect_ok_init: "connect_ok p os x c \<Longrightarrow> is_init c"
  by (cases x) (simp_all add: connect_ok_is_init)

lemma state_of_step:
  "state_of (step p os x c) =
     (if state_of c = Unconnected \<and> connect_ok p os x c then Connected else state_of c)"
proof (cases "connect_ok p os x c")
  case True
  then have "is_init c" by (rule connect_ok_init)
  with True show ?thesis
    by (simp add: state_of_def step_is_init step_is_connected)
next
  case False
  then show ?thesis
    by (simp add: state_of_def step_is_init step_is_connected)
qed

lemma connect_ok_state:
  assumes "connect_ok p os x c"
  shows "state_of (step p os x c) = Connected"
proof -
  from assms have "is_init c" by (rule connect_ok_init)
  with assms show ?thesis
    by (simp add: state_of_def step_is_init step_is_connected)
qed

lemma transitions_from_connected_none: "transitions_from_connected p xs c = 0"
proof (induction xs arbitrary: c)
  case Nil
  show ?case by simp
next
  case (Cons a xs)
  obtain os x where a: "a = (os, x)" by (cases a)
  show ?case using Cons.IH by (simp add: a state_of_step)
qed

lemma transitions_other_start:
  "state_of c \<noteq> Unconnected \<Longrightarrow> transitions_to_connected p xs c = 0"
proof (induction xs arbitrary: c)
  case Nil
  show ?case by simp
next
  case (Cons a xs)
  obtain os x where a: "a = (os, x)" by (cases a)
  from Cons.prems have "state_of (step p os x c) \<noteq> Unconnected"
    by (simp add: state_of_step)
  with Cons.IH Cons.prems show ?case by (simp add: a)
qed

lemma transitions_unconnected_start:
  "state_of c = Unconnected \<Longrightarrow>
   transitions_to_connected p xs c = (if 0 < successful_connects p xs c then 1 else 0)"
proof (induction xs arbitrary: c)
  case Nil
  show ?case by simp
next
  case (Cons a xs)
  obtain os x where a: "a = (os, x)" by (cases a)
  show ?case
  proof (cases "connect_ok p os x c")
    case True
    with Cons.prems have "state_of (step p os x c) = Connected"
      by (simp add: state_of_step)
    then have "transitions_to_connected p xs (step p os x c) = 0"
      by (simp add: transitions_other_start)
    with True Cons.prems show ?thesis by (simp add: a state_of_step)
  next
    case False
    with Cons.prems have "state_of (step p os x c) = Unconnected"
      by (simp add: state_of_step)
    with Cons.IH False Cons.prems show ?thesis by (simp add: a)
  qed
qed

lemma run_stays_unconnected:
  "state_of c = Unconnected \<Longrightarrow> successful_connects p xs c = 0 \<Longrightarrow>
   state_of (run p xs c) = Unconnected"
proof (induction xs arbitrary: c)
  case Nil
  then show ?case by simp
next
  case (Cons a xs)
  obtain os x where a: "a = (os, x)" by (cases a)
  from Cons.prems have no: "\<not> connect_ok p os x c"
    and rest: "successful_connects p xs (step p os x c) = 0"
    by (auto simp add: a split: if_splits)
  from no Cons.prems have "state_of (step p os x c) = Unconnected"
    by (simp add: state_of_step)
  with rest Cons.IH show ?case by (simp add: a)
qed

lemma run_uninitialized: "\<not> is_init c \<Longrightarrow> run p xs c = c"
proof (induction xs arbitrary: c)
  case Nil
  show ?case by simp
next
  case (Cons a xs)
  obtain os x where a: "a = (os, x)" by (cases a)
  from Cons.prems have "step p os x c = c"
    by (cases x) (simp_all add: abort_defs bind_def connect_def)
  with Cons show ?case by (simp add: a)
qed

lemma ctor_state:
  "state_of (UdpConnection_ctor os junk) = (if Fd_valid (os_socket os) then Unconnected else Uninitialized)"
  by (simp add: state_of_def UdpConnection_ctor_def)

lemmas demo_defs = abort_defs
  os_demo_def os_idle_def os_no_socket_def conn_demo_def conn_peer_a_def
  conn_bound_peer_a_def ops_demo_def ops_no_connect_def ops_io_def peer_b_99_def
  peer_a_80_def os_from_peer_a_def
  UdpConnection_ctor_def memset_zero_def Fd_valid_def Fd_can_read_def Fd_can_write_def
  state_of_def connect_def bind_def recv_def send_def init_sockaddr_def memcpy_sin_addr_def
  c_str_def htons_def htonl_def AF_INET_def INADDR_ANY_def Let_def

subsection \<open>The connection state\<close>

text \<open>
  C4. Over every sequence of calls on a connection, the step from Unconnected to Connected
  is taken at most once, and exactly once when the connection starts Unconnected and some
  \<open>connect\<close> call of the sequence succeeds; a call that takes this step is a \<open>connect\<close>
  that returns true; a \<open>connect\<close> that returns true leaves the state Connected; and no
  call takes a Connected connection to another state.
\<close>

theorem connected_transition_once:
  "transitions_to_connected p xs c \<le> 1
   \<and> transitions_from_connected p xs c = 0
   \<and> (state_of c = Unconnected \<longrightarrow>
        transitions_to_connected p xs c = (if 0 < successful_connects p xs c then 1 else 0))
   \<and> (state_of c = Unconnected \<and> state_of (step p os x c) = Connected \<longrightarrow> connect_ok p os x c)
   \<and> (connect_ok p os x c \<longrightarrow> state_of (step p os x c) = Connected)
   \<and> (state_of c = Connected \<longrightarrow> state_of (step p os x c) = Connected)"
proof -
  have "transitions_to_connected p xs c \<le> 1"
    by (cases "state_of c = Unconnected")
      (simp_all add: transitions_unconnected_start transitions_other_start)
  moreover have "connect_ok p os x c \<longrightarrow> state_of (step p os x c) = Connected"
    by (simp add: connect_ok_state)
  ultimately show ?thesis
    by (simp add: transitions_from_connected_none transitions_unconnected_start state_of_step)
qed

text \<open>
  On the sample environment: bind, connect to \<open>peer-a\<close>, send, connect to \<open>peer-b\<close>. Both
  \<open>connect\<close> calls succeed, and the state changes to Connected once.
\<close>

theorem connected_transition_once_witness:
  "state_of conn_demo = Unconnected
   \<and> successful_connects LittleEndian ops_demo conn_demo = 2
   \<and> transitions_to_connected LittleEndian ops_demo conn_demo = 1
   \<and> transitions_from_connected LittleEndian ops_demo conn_demo = 0
   \<and> connect_ok LittleEndian os_demo (Connect 80 ''peer-a'') conn_demo
   \<and> state_of (step LittleEndian os_demo (Connect 80 ''peer-a'') conn_demo) = Connected
   \<and> state_of conn_peer_a = Connected
   \<and> state_of (step LittleEndian os_demo (Connect 81 ''peer-b'') conn_peer_a) = Connected"
proof -
  have h1: "state_of conn_demo = Unconnected"
    by (simp add: demo_defs)
  have h2: "successful_connects LittleEndian ops_demo conn_demo = 2"
    by (simp add: demo_defs)
  have h3: "connect_ok LittleEndian os_demo (Connect 80 ''peer-a'') conn_demo"
    by (simp add: demo_defs)
  have h4: "state_of conn_peer_a = Connected"
    by (simp add: demo_defs)
  show ?thesis
    using h1 h2 h3 h4
      connected_transition_once [of LittleEndian ops_demo conn_demo os_demo "Connect 80 ''peer-a''"]
      connected_transition_once [of LittleEndian ops_demo conn_peer_a os_demo "Connect 81 ''peer-b''"]
    by simp
qed

subsection \<open>send before connect\<close>

text \<open>
  C3. A connection whose construction obtained a descriptor starts Unconnected, and as long
  as no \<open>connect\<close> call on it has succeeded, whatever else was called, \<open>send\<close> returns the
  error result \<open>-1\<close> and calls no primitive of the operating system: neither the wait for
  writability nor the write, so no byte is transferred.
\<close>

theorem send_before_connect_invalid_state:
  assumes "Fd_valid (os_socket os0)"
    and "successful_connects p xs (UdpConnection_ctor os0 junk) = 0"
  shows "state_of (UdpConnection_ctor os0 junk) = Unconnected
    \<and> state_of (run p xs (UdpConnection_ctor os0 junk)) = Unconnected
    \<and> send os (run p xs (UdpConnection_ctor os0 junk)) buf sz timeout = (- 1, [])"
proof -
  from assms(1) have start: "state_of (UdpConnection_ctor os0 junk) = Unconnected"
    by (simp add: ctor_state)
  from start assms(2)
  have still: "state_of (run p xs (UdpConnection_ctor os0 junk)) = Unconnected"
    by (rule run_stays_unconnected)
  then have "send os (run p xs (UdpConnection_ctor os0 junk)) buf sz timeout = (- 1, [])"
    by (simp add: abort_defs send_def state_of_def split: if_splits)
  with start still show ?thesis by simp
qed

text \<open>
  On the sample environment: after a bind, a receive that times out, a \<open>connect\<close> to a host
  that does not resolve and a first \<open>send\<close>, sending three bytes fails without a call.
\<close>

theorem send_before_connect_invalid_state_witness:
  "Fd_valid (os_socket os_demo)
   \<and> successful_connects LittleEndian ops_no_connect (UdpConnection_ctor os_demo memset_zero) = 0
   \<and> send os_demo (run LittleEndian ops_no_connect (UdpConnection_ctor os_demo memset_zero))
        [0x41, 0x42, 0x43] 3 1000 = (- 1, [])"
proof -
  have h1: "Fd_valid (os_socket os_demo)"
    by (simp add: demo_defs)
  have h2: "successful_connects LittleEndian ops_no_connect
              (UdpConnection_ctor os_demo memset_zero) = 0"
    by (simp add: demo_defs)
  show ?thesis
    using h1 h2
      send_before_connect_invalid_state [OF h1 h2, of os_demo "[0x41, 0x42, 0x43]" 3 1000]
    by simp
qed

subsection \<open>recv\<close>

text \<open>
  C5. On an initialised connection, when the wait for readability ends with nothing to
  read, \<open>recv\<close> returns 0, which is not the error result \<open>-1\<close>; \<open>recv\<close> returns \<open>-1\<close>
  exactly when the descriptor was readable and the datagram read \<open>::recvfrom\<close> itself
  failed; and when the read succeeds \<open>recv\<close> returns the number of bytes it received.
\<close>

theorem recv_results:
  assumes "is_init c"
  shows "(\<not> Fd_can_read os (fd c) timeout \<longrightarrow>
            fst (recv os c buf sz timeout) = 0 \<and> fst (recv os c buf sz timeout) \<noteq> - 1)
    \<and> ((fst (recv os c buf sz timeout) = - 1)
         = (Fd_can_read os (fd c) timeout \<and> fst (os_recvfrom os (fd c) buf sz) < 0))
    \<and> (Fd_can_read os (fd c) timeout \<and> 0 \<le> fst (os_recvfrom os (fd c) buf sz) \<longrightarrow>
         fst (recv os c buf sz timeout) = fst (os_recvfrom os (fd c) buf sz))"
  using assms by (auto simp add: abort_defs recv_def split: prod.splits)

text \<open>On the sample environment: a poll with nothing readable gives 0, a read of the
  waiting datagram gives its 3 bytes.\<close>

theorem recv_results_witness:
  "is_init conn_demo
   \<and> \<not> Fd_can_read os_idle (fd conn_demo) 0
   \<and> fst (recv os_idle conn_demo [0, 0, 0] 3 0) = 0
   \<and> Fd_can_read os_demo (fd conn_demo) 1000
   \<and> 0 \<le> fst (os_recvfrom os_demo (fd conn_demo) [0, 0, 0] 3)
   \<and> fst (recv os_demo conn_demo [0, 0, 0] 3 1000) = 3"
proof -
  have h1: "is_init conn_demo"
    by (simp add: demo_defs)
  have h2: "\<not> Fd_can_read os_idle (fd conn_demo) 0"
    by (simp add: demo_defs)
  have h3: "Fd_can_read os_demo (fd conn_demo) 1000"
    by (simp add: demo_defs)
  have h4: "fst (os_recvfrom os_demo (fd conn_demo) [0, 0, 0] 3) = 3"
    by (simp add: demo_defs)
  show ?thesis
    using h1 h2 h3 h4
      recv_results [OF h1, of os_idle 0 "[0, 0, 0]" 3]
      recv_results [OF h1, of os_demo 1000 "[0, 0, 0]" 3]
    by simp
qed



subsection \<open>The uninitialised connection\<close>

text \<open>
  C6. When the construction of a connection obtained no descriptor, then after whatever
  calls, the connection is Uninitialized and each of \<open>bind\<close>, \<open>connect\<close>, \<open>recv\<close> and
  \<open>send\<close> returns its failure result (false, false, \<open>-1\<close>, \<open>-1\<close>) at once: it calls no
  primitive of the operating system (no resolution, no wait, no read or write) and leaves
  the connection and the buffer as they were.
\<close>

theorem uninitialized_operations_fail:
  assumes "\<not> Fd_valid (os_socket os0)"
  shows "state_of (run p xs (UdpConnection_ctor os0 junk)) = Uninitialized
    \<and> bind p os (run p xs (UdpConnection_ctor os0 junk)) port name
        = (False, run p xs (UdpConnection_ctor os0 junk), [])
    \<and> connect p os (run p xs (UdpConnection_ctor os0 junk)) port name
        = (False, run p xs (UdpConnection_ctor os0 junk), [])
    \<and> recv os (run p xs (UdpConnection_ctor os0 junk)) buf sz timeout = (- 1, buf, [])
    \<and> send os (run p xs (UdpConnection_ctor os0 junk)) buf sz timeout = (- 1, [])"
proof -
  from assms have "\<not> is_init (UdpConnection_ctor os0 junk)"
    by (simp add: UdpConnection_ctor_def)
  then have "\<not> is_init (run p xs (UdpConnection_ctor os0 junk))"
    by (simp add: run_uninitialized)
  then show ?thesis
    by (simp add: abort_defs state_of_def bind_def connect_def recv_def send_def)
qed

text \<open>On the sample environment with \<open>::socket\<close> answering \<open>-1\<close>.\<close>

theorem uninitialized_operations_fail_witness:
  "\<not> Fd_valid (os_socket os_no_socket)
   \<and> bind LittleEndian os_demo
        (run LittleEndian ops_demo (UdpConnection_ctor os_no_socket memset_zero)) 5000 []
        = (False, UdpConnection_ctor os_no_socket memset_zero, [])
   \<and> connect LittleEndian os_demo
        (run LittleEndian ops_demo (UdpConnection_ctor os_no_socket memset_zero)) 80 ''peer-a''
        = (False, UdpConnection_ctor os_no_socket memset_zero, [])
   \<and> recv os_demo (run LittleEndian ops_demo (UdpConnection_ctor os_no_socket memset_zero))
        [0, 0, 0] 3 1000 = (- 1, [0, 0, 0], [])
   \<and> send os_demo (run LittleEndian ops_demo (UdpConnection_ctor os_no_socket memset_zero))
        [0x41, 0x42, 0x43] 3 1000 = (- 1, [])"
proof -
  have h1: "\<not> Fd_valid (os_socket os_no_socket)"
    by (simp add: demo_defs)
  have h2: "run LittleEndian ops_demo (UdpConnection_ctor os_no_socket memset_zero)
              = UdpConnection_ctor os_no_socket memset_zero"
    by (simp add: demo_defs)
  show ?thesis
    using h1 h2
      uninitialized_operations_fail [OF h1, where p = LittleEndian and xs = ops_demo
        and junk = memset_zero and os = os_demo and port = 5000 and name = "[]"
        and buf = "[0, 0, 0]" and sz = 3 and timeout = 1000]
      uninitialized_operations_fail [OF h1, where p = LittleEndian and xs = ops_demo
        and junk = memset_zero and os = os_demo and port = 80 and name = "''peer-a''"
        and buf = "[0x41, 0x42, 0x43]" and sz = 3 and timeout = 1000]
    by simp
qed

subsection \<open>bind\<close>

text \<open>
  C8. \<open>bind\<close> returns true exactly when the connection is initialised, the name is empty
  or resolves, and the operating system's bind call answers 0; so it fails exactly when the
  descriptor is invalid, the resolution fails or the bind call fails. With the empty name
  the address is the wildcard \<open>INADDR_ANY\<close>, four zero bytes on every host, and it is
  this address, with the port in network order, that an initialised connection passes to
  the bind call, without asking the resolver.
\<close>

theorem bind_result:
  "fst (bind p os c port name)
     = (is_init c \<and> (name = [] \<or> os_gethostbyname os (c_str name) \<noteq> None)
        \<and> os_bind os (fd c) (fst (snd (init_sockaddr p os port name))) = 0)
   \<and> sin_addr (fst (snd (init_sockaddr p os port []))) = store32 p (htonl p INADDR_ANY)
   \<and> store32 p (htonl p INADDR_ANY) = [0, 0, 0, 0]
   \<and> (is_init c \<longrightarrow>
        snd (snd (bind p os c port []))
          = [Sys_bind (fd c) \<lparr>sin_family = AF_INET, sin_port = htons p port,
               sin_addr = [0, 0, 0, 0], sin_zero = replicate 8 0\<rparr>])"
proof -
  have "fst (bind p os c port name)
     = (is_init c \<and> (name = [] \<or> os_gethostbyname os (c_str name) \<noteq> None)
        \<and> os_bind os (fd c) (fst (snd (init_sockaddr p os port name))) = 0)"
    using init_sockaddr_ok [of p os port name]
    by (auto simp add: abort_defs bind_def split: prod.splits)
  moreover have "store32 p (htonl p INADDR_ANY) = [0, 0, 0, 0]"
    by (cases p) (simp_all add: htonl_def INADDR_ANY_def)
  ultimately show ?thesis
    by (simp add: abort_defs init_sockaddr_wildcard bind_def)
qed

text \<open>On the sample environment: binding port 5000 on all interfaces succeeds, binding to a
  name that does not resolve fails.\<close>

theorem bind_result_witness:
  "is_init conn_demo
   \<and> os_bind os_demo (fd conn_demo) (fst (snd (init_sockaddr LittleEndian os_demo 5000 []))) = 0
   \<and> fst (bind LittleEndian os_demo conn_demo 5000 [])
   \<and> snd (snd (bind LittleEndian os_demo conn_demo 5000 []))
       = [Sys_bind 3 \<lparr>sin_family = 2, sin_port = 0x8813, sin_addr = [0, 0, 0, 0],
            sin_zero = replicate 8 0\<rparr>]
   \<and> os_gethostbyname os_demo (c_str ''nobody'') = None
   \<and> \<not> fst (bind LittleEndian os_demo conn_demo 5000 ''nobody'')"
proof -
  have h1: "is_init conn_demo \<and> fd conn_demo = 3"
    by (simp add: demo_defs)
  have h2: "os_bind os_demo (fd conn_demo)
              (fst (snd (init_sockaddr LittleEndian os_demo 5000 []))) = 0"
    by (simp add: demo_defs)
  have h3: "os_gethostbyname os_demo (c_str ''nobody'') = None"
    by (simp add: demo_defs)
  have h4: "htons LittleEndian 5000 = 0x8813 \<and> AF_INET = 2"
    by (simp add: demo_defs)
  show ?thesis
    using h1 h2 h3 h4
      bind_result [of LittleEndian os_demo conn_demo 5000 "[]"]
      bind_result [of LittleEndian os_demo conn_demo 5000 "''nobody''"]
    by simp
qed

subsection \<open>The remote address\<close>

lemma step_remote_addr: "\<not> is_connect x \<Longrightarrow> remote_addr (step p os x c) = remote_addr c"
  by (cases x) (simp_all add: bind_conn_unchanged)

lemma run_remote_addr: "no_connect xs \<Longrightarrow> remote_addr (run p xs c) = remote_addr c"
proof (induction xs arbitrary: c)
  case Nil
  show ?case by simp
next
  case (Cons a xs)
  obtain os x where a: "a = (os, x)" by (cases a)
  with Cons show ?case by (simp add: step_remote_addr)
qed

text \<open>
  C7, as amended. The stored remote address is left as it is by every sequence of \<open>bind\<close>,
  \<open>recv\<close> and \<open>send\<close> calls, so after a successful \<open>connect\<close> only a later \<open>connect\<close>
  call can change it; and a \<open>connect\<close> call that succeeds, the first or a later one,
  leaves in it the address resolved from the port and host of that call.
\<close>

theorem remote_addr_changed_only_by_connect:
  "(no_connect xs \<longrightarrow> remote_addr (run p xs c) = remote_addr c)
   \<and> (fst (connect p os c port host) \<longrightarrow>
        remote_addr (fst (snd (connect p os c port host)))
          = fst (snd (init_sockaddr p os port host)))"
  by (auto simp add: abort_defs run_remote_addr connect_def Let_def split: prod.splits if_splits)

text \<open>On the sample environment, from the connection connected to \<open>peer-a\<close>.\<close>

theorem remote_addr_changed_only_by_connect_witness:
  "no_connect ops_io
   \<and> remote_addr (run LittleEndian ops_io conn_peer_a) = remote_addr conn_peer_a
   \<and> fst (connect LittleEndian os_demo conn_peer_a 81 ''peer-b'')
   \<and> remote_addr (fst (snd (connect LittleEndian os_demo conn_peer_a 81 ''peer-b'')))
       = \<lparr>sin_family = 2, sin_port = 0x5100, sin_addr = [10, 0, 0, 2],
          sin_zero = replicate 8 0\<rparr>"
proof -
  have h1: "no_connect ops_io"
    by (simp add: ops_io_def)
  have h2: "fst (connect LittleEndian os_demo conn_peer_a 81 ''peer-b'')"
    by (simp add: demo_defs)
  have h3: "fst (snd (init_sockaddr LittleEndian os_demo 81 ''peer-b''))
      = \<lparr>sin_family = 2, sin_port = 0x5100, sin_addr = [10, 0, 0, 2],
          sin_zero = replicate 8 0\<rparr>"
    by (simp add: demo_defs)
  show ?thesis
    using h1 h2 h3
      remote_addr_changed_only_by_connect [of ops_io LittleEndian conn_peer_a os_demo 81
        "''peer-b''"]
    by simp
qed

text \<open>
  The claim C7 as it was stated fails: after a first successful \<open>connect\<close> to \<open>peer-a\<close>,
  port 80, a second successful \<open>connect\<close> to \<open>peer-b\<close>, port 81, replaces the stored
  remote address.
\<close>

theorem remote_addr_second_connect_counterexample:
  "fst (connect LittleEndian os_demo conn_demo 80 ''peer-a'')
   \<and> conn_peer_a = fst (snd (connect LittleEndian os_demo conn_demo 80 ''peer-a''))
   \<and> sin_addr (remote_addr conn_peer_a) = [10, 0, 0, 1]
   \<and> fst (connect LittleEndian os_demo conn_peer_a 81 ''peer-b'')
   \<and> sin_addr (remote_addr (fst (snd (connect LittleEndian os_demo conn_peer_a 81 ''peer-b''))))
       = [10, 0, 0, 2]
   \<and> remote_addr (fst (snd (connect LittleEndian os_demo conn_peer_a 81 ''peer-b'')))
       \<noteq> remote_addr conn_peer_a"
  by (simp add: demo_defs)

end
